theory Spec2Isabelle
  imports Complex_Main "HOL-Library.AList" "HOL-Library.Char_ord" "HOL-Library.List_Lexorder"
    "HOL-Library.Product_Lexorder"
begin

section \<open>Configuration (src/main.py, lines 16-25)\<close>

definition IMAGE_DIR :: string where
  "IMAGE_DIR = ''uploaded_images''"

definition SECRET_KEY :: string where
  "SECRET_KEY = ''c1591e1c961c5da73be50b329c8390a2ec7d38c3e5615152ec10f4c0202fbaa4''"

definition ALGORITHM :: string where
  "ALGORITHM = ''HS256''"

definition ACCESS_TOKEN_EXPIRE_MINUTES :: int where
  "ACCESS_TOKEN_EXPIRE_MINUTES = 30"

section \<open>Python values used by the handlers\<close>

text \<open>
  Exceptions are values: \<open>HTTPException status_code detail headers\<close> (headers \<open>[]\<close> when
  the source passes none), and the Python exceptions that escape a handler unhandled:
  \<open>OverflowError\<close> (an integer that does not fit SQLite's INTEGER, a date past
  \<open>datetime.max\<close>), \<open>IntegrityError\<close> (a NOT NULL constraint), \<open>OperationalError\<close>
  (the store can assign no further id, a statement SQLite cannot prepare), the
  \<open>OSError\<close> family of \<open>open\<close>, and the subclasses of \<open>JWTError\<close>.
\<close>

datatype jwt_error = JWTError_base | ExpiredSignatureError | JWTClaimsError

datatype exn =
    HTTPException int string "(string \<times> string) list"
  | TypeError
  | ValueError
  | ValidationError
  | OverflowError
  | IntegrityError
  | OperationalError
  | ProgrammingError
  | OSError
  | JWTError jwt_error

text \<open>\<open>str(n)\<close> for an integer, as the f-strings of the handlers format an id.\<close>

definition digit_char :: "nat \<Rightarrow> char" where
  "digit_char d = ''0123456789'' ! (d mod 10)"

fun str_nat :: "nat \<Rightarrow> string" where
  "str_nat n = (if n < 10 then [digit_char n] else str_nat (n div 10) @ [digit_char (n mod 10)])"

declare str_nat.simps [simp del]

definition str_int :: "int \<Rightarrow> string" where
  "str_int i = (if i < 0 then ''-'' @ str_nat (nat (- i)) else str_nat (nat i))"

definition quote :: string where
  "quote = [CHR 0x27]"

text \<open>
  A Python float is NaN or a number; a number is finite or one of the two infinities.
  SQLite stores a NaN as NULL, so a \<open>REAL NOT NULL\<close> column holds numbers only, and it
  orders them with \<open>-inf\<close> first and \<open>+inf\<close> last. \<open>float_le\<close> is Python's \<open><=\<close>, false
  as soon as one side is NaN.
\<close>

datatype sqlite_real = NegInf | Finite real | PosInf

datatype pyfloat = NaN | Num sqlite_real

fun real_key :: "sqlite_real \<Rightarrow> nat \<times> real" where
  "real_key NegInf = (0, 0)"
| "real_key (Finite x) = (1, x)"
| "real_key PosInf = (2, 0)"


text \<open>
  The sqlite3 module binds a Python int as a signed 64-bit INTEGER and raises
  \<open>OverflowError\<close> for any other int, before the statement runs.
\<close>

definition sqlite_int64 :: "int \<Rightarrow> bool" where
  "sqlite_int64 i = (- (2 ^ 63) \<le> i \<and> i < 2 ^ 63)"

section \<open>Pydantic models (src/main.py, lines 28-37 and 83-101)\<close>

record CarModel =
  manufacturer :: string
  model :: string
  year :: int
  price :: pyfloat

record CarModelInDB = CarModel +
  id_field :: int

record User =
  username :: string
  email :: "string option"
  full_name :: "string option"
  disabled :: "bool option"

record UserInDB = User +
  hashed_password :: string

section \<open>The car_models table (src/main.py, lines 47-57)\<close>

text \<open>
  A row of \<open>car_models\<close>, with its six columns. The table is the list of its rows in
  insertion order; \<open>sqlite_sequence\<close> is the counter SQLite keeps for an
  \<open>AUTOINCREMENT\<close> key (the largest rowid ever assigned). Each handler opens its own
  connection, runs one statement and commits, so a handler is a function from the
  database before to the result and the database after; a statement that raises changes
  nothing. A string stands for a \<open>str\<close> that encodes to UTF-8.
\<close>

record car_models_row =
  col_id :: int
  col_manufacturer :: string
  col_model :: string
  col_year :: int
  col_price :: sqlite_real
  col_image_path :: "string option"

record car_models_db =
  car_models :: "car_models_row list"
  sqlite_sequence :: int

text \<open>The rowid an \<open>INSERT\<close> assigns: one more than the largest rowid ever used.\<close>

definition next_rowid :: "car_models_db \<Rightarrow> int" where
  "next_rowid db = fold max (map col_id (car_models db)) (sqlite_sequence db) + 1"

text \<open>\<open>CarModelInDB(**dict(row))\<close>: the response model keeps the five fields it declares.\<close>

definition CarModelInDB_of_row :: "car_models_row \<Rightarrow> CarModelInDB" where
  "CarModelInDB_of_row r =
     \<lparr>manufacturer = col_manufacturer r, model = col_model r, year = col_year r,
      price = Num (col_price r), id_field = col_id r\<rparr>"

section \<open>Car model routes (src/main.py, lines 194-259)\<close>

text \<open>
  The handlers take \<open>current_user\<close> from the dependency \<open>get_current_active_user\<close>,
  which has run before the body; no body reads it, so it is not an argument here.
\<close>

datatype sort_column = Col_id | Col_manufacturer | Col_model | Col_year | Col_price


text \<open>
  \<open>ORDER BY column ASC|DESC\<close>. SQL leaves the order of rows with equal keys open; the
  model keeps them in table order.
\<close>

definition order_rows :: "bool \<Rightarrow> ('a \<Rightarrow> 'k::linorder) \<Rightarrow> 'a list \<Rightarrow> 'a list" where
  "order_rows desc key rs = (if desc then rev (sort_key key (rev rs)) else sort_key key rs)"

fun order_by :: "sort_column \<Rightarrow> bool \<Rightarrow> car_models_row list \<Rightarrow> car_models_row list" where
  "order_by Col_id desc rs = order_rows desc col_id rs"
| "order_by Col_manufacturer desc rs = order_rows desc col_manufacturer rs"
| "order_by Col_model desc rs = order_rows desc col_model rs"
| "order_by Col_year desc rs = order_rows desc col_year rs"
| "order_by Col_price desc rs = order_rows desc (\<lambda>r. real_key (col_price r)) rs"



text \<open>
  \<open>create_car_model\<close>: the bind of \<open>year\<close> raises \<open>OverflowError\<close> outside 64 bits; the
  \<open>INSERT\<close> raises \<open>OperationalError\<close> (database or disk is full) when the largest rowid
  has been used, and \<open>IntegrityError\<close> for a NaN price, which arrives as NULL in a
  \<open>NOT NULL\<close> column.
\<close>

definition create_car_model ::
  "car_models_db \<Rightarrow> CarModel \<Rightarrow> (exn + CarModelInDB) \<times> car_models_db" where
  "create_car_model db car_model =
     (let car_model_id = next_rowid db
      in if \<not> sqlite_int64 (year car_model) then (Inl OverflowError, db)
         else if \<not> sqlite_int64 car_model_id then (Inl OperationalError, db)
         else (case price car_model of
                 NaN \<Rightarrow> (Inl IntegrityError, db)
               | Num p \<Rightarrow>
                   (let row = \<lparr>col_id = car_model_id, col_manufacturer = manufacturer car_model,
                               col_model = model car_model, col_year = year car_model,
                               col_price = p, col_image_path = None\<rparr>;
                        db' = db\<lparr>car_models := car_models db @ [row],
                                 sqlite_sequence := car_model_id\<rparr>
                    in (Inr \<lparr>manufacturer = manufacturer car_model, model = model car_model,
                              year = year car_model, price = price car_model,
                              id_field = car_model_id\<rparr>, db'))))"

definition read_car_model :: "car_models_db \<Rightarrow> int \<Rightarrow> exn + CarModelInDB" where
  "read_car_model db car_model_id =
     (if \<not> sqlite_int64 car_model_id then Inl OverflowError
      else (case find (\<lambda>r. col_id r = car_model_id) (car_models db) of
              None \<Rightarrow> Inl (HTTPException 404
                       (''CarModel with id: '' @ quote @ str_int car_model_id @ quote
                          @ '' was not found'') [])
            | Some car_model \<Rightarrow> Inr (CarModelInDB_of_row car_model)))"

text \<open>
  \<open>update_car_model\<close> and \<open>delete_car_model\<close> run and commit the statement first and
  look at \<open>cursor.rowcount\<close> afterwards. The binds raise \<open>OverflowError\<close> for a year or
  an id outside 64 bits; a NaN price raises \<open>IntegrityError\<close> when the \<open>UPDATE\<close> reaches
  a row.
\<close>

definition update_car_model ::
  "car_models_db \<Rightarrow> int \<Rightarrow> CarModel \<Rightarrow> (exn + CarModelInDB) \<times> car_models_db" where
  "update_car_model db car_model_id car_model =
     (let rowcount = length (filter (\<lambda>r. col_id r = car_model_id) (car_models db))
      in if \<not> sqlite_int64 (year car_model) \<or> \<not> sqlite_int64 car_model_id
         then (Inl OverflowError, db)
         else (case price car_model of
                 NaN \<Rightarrow>
                   if rowcount = 0 then (Inl (HTTPException 404 ''CarModel not found'' []), db)
                   else (Inl IntegrityError, db)
               | Num p \<Rightarrow>
                   (let db' = db\<lparr>car_models :=
                                 map (\<lambda>r. if col_id r = car_model_id
                                           then r\<lparr>col_manufacturer := manufacturer car_model,
                                                  col_model := model car_model,
                                                  col_year := year car_model,
                                                  col_price := p\<rparr>
                                           else r) (car_models db)\<rparr>
                    in if rowcount = 0
                       then (Inl (HTTPException 404 ''CarModel not found'' []), db')
                       else (Inr \<lparr>manufacturer = manufacturer car_model,
                                   model = model car_model, year = year car_model,
                                   price = price car_model, id_field = car_model_id\<rparr>, db'))))"

definition delete_car_model ::
  "car_models_db \<Rightarrow> int \<Rightarrow> (exn + int \<times> (string \<times> bool) list) \<times> car_models_db" where
  "delete_car_model db car_model_id =
     (let rowcount = length (filter (\<lambda>r. col_id r = car_model_id) (car_models db));
          db' = db\<lparr>car_models := filter (\<lambda>r. col_id r \<noteq> car_model_id) (car_models db)\<rparr>
      in if \<not> sqlite_int64 car_model_id then (Inl OverflowError, db)
         else if rowcount = 0 then (Inl (HTTPException 404 ''CarModel not found'' []), db')
         else (Inr (202, [(''ok'', True)]), db'))"

section \<open>Image routes (src/main.py, lines 262-290)\<close>

text \<open>
  The upload directory is a map from paths to file contents, and holds regular files
  only. A plain file name (not empty, not \<open>.\<close> or \<open>..\<close>, without \<open>/\<close> or a NUL, at
  most 255 bytes) names a file directly in the directory: \<open>open(path, "wb+")\<close> followed
  by \<open>write\<close> sets the contents at that path. Any other name makes \<open>open\<close> raise or
  leaves the directory (\<open>../car_models.db\<close> is the database file itself); what the
  handler does then is the parameter \<open>other_path\<close>. After the write the two handlers
  run the same \<open>UPDATE car_models SET image_path = ? WHERE id = ?\<close>, whose bind raises
  \<open>OverflowError\<close> for an id outside 64 bits; only the PUT handler looks at
  \<open>cursor.rowcount\<close>.
\<close>

record UploadFile =
  filename :: string
  file_bytes :: string

record app_state =
  database :: car_models_db
  files :: "string \<rightharpoonup> string"

definition plain_filename :: "string \<Rightarrow> bool" where
  "plain_filename f =
     (f \<noteq> [] \<and> f \<noteq> ''.'' \<and> f \<noteq> ''..'' \<and> CHR ''/'' \<notin> set f \<and> CHR 0x00 \<notin> set f
      \<and> length f \<le> 255)"

definition set_image_path :: "car_models_db \<Rightarrow> string \<Rightarrow> int \<Rightarrow> car_models_db" where
  "set_image_path db file_location car_model_id =
     db\<lparr>car_models :=
          map (\<lambda>r. if col_id r = car_model_id then r\<lparr>col_image_path := Some file_location\<rparr> else r)
            (car_models db)\<rparr>"

definition upload_car_model_image ::
  "(app_state \<Rightarrow> int \<Rightarrow> UploadFile \<Rightarrow> (exn + int \<times> (string \<times> string) list) \<times> app_state) \<Rightarrow>
   app_state \<Rightarrow> int \<Rightarrow> UploadFile \<Rightarrow> (exn + int \<times> (string \<times> string) list) \<times> app_state" where
  "upload_car_model_image other_path st car_model_id file =
     (if \<not> plain_filename (filename file) then other_path st car_model_id file
      else
        (let file_location = IMAGE_DIR @ ''/'' @ filename file;
             st1 = st\<lparr>files := (files st)(file_location \<mapsto> file_bytes file)\<rparr>;
             st2 = st1\<lparr>database := set_image_path (database st1) file_location car_model_id\<rparr>
         in if \<not> sqlite_int64 car_model_id then (Inl OverflowError, st1)
            else (Inr (201, [(''info'', ''image of Car Model id:'' @ quote @ str_int car_model_id
                                      @ quote @ '' was set to '' @ quote @ filename file @ quote)]),
                  st2)))"

definition update_car_model_image ::
  "(app_state \<Rightarrow> int \<Rightarrow> UploadFile \<Rightarrow> (exn + int \<times> (string \<times> string) list) \<times> app_state) \<Rightarrow>
   app_state \<Rightarrow> int \<Rightarrow> UploadFile \<Rightarrow> (exn + int \<times> (string \<times> string) list) \<times> app_state" where
  "update_car_model_image other_path st car_model_id file =
     (if \<not> plain_filename (filename file) then other_path st car_model_id file
      else
        (let file_location = IMAGE_DIR @ ''/'' @ filename file;
             st1 = st\<lparr>files := (files st)(file_location \<mapsto> file_bytes file)\<rparr>;
             rowcount = length (filter (\<lambda>r. col_id r = car_model_id) (car_models (database st1)));
             st2 = st1\<lparr>database := set_image_path (database st1) file_location car_model_id\<rparr>
         in if \<not> sqlite_int64 car_model_id then (Inl OverflowError, st1)
            else if rowcount = 0 then (Inl (HTTPException 404 ''CarModel not found'' []), st2)
            else (Inr (202, [(''info'', ''image of Car Model id:'' @ quote @ str_int car_model_id
                                      @ quote @ '' was updated to '' @ quote @ filename file
                                      @ quote)]), st2)))"

section \<open>The users table and password check (src/main.py, lines 60-70 and 104-132)\<close>

text \<open>
  A row of \<open>users\<close>; the column \<open>disabled INTEGER NOT NULL DEFAULT 0\<close> holds 0 or 1 and is
  read as a boolean. \<open>pwd_context.verify\<close> (bcrypt, from passlib) is a parameter
  \<open>pwd_verify plain hash\<close> of the functions that check a password.
\<close>

record users_row =
  usr_id :: int
  usr_username :: string
  usr_email :: string
  usr_full_name :: "string option"
  usr_hashed_password :: string
  usr_disabled :: bool

definition UserInDB_of_row :: "users_row \<Rightarrow> UserInDB" where
  "UserInDB_of_row u =
     \<lparr>username = usr_username u, email = Some (usr_email u), full_name = usr_full_name u,
      disabled = Some (usr_disabled u), hashed_password = usr_hashed_password u\<rparr>"

text \<open>
  \<open>get_user\<close>: \<open>fetchone()\<close> gives the first matching row or \<open>None\<close>. The test is on
  \<open>username\<close> (a non-empty string is true), not on the row: with a non-empty username and
  no row, \<open>UserInDB(**None)\<close> raises \<open>TypeError\<close>; with the empty username the function
  falls off its end and returns \<open>None\<close>.
\<close>

definition get_user :: "users_row list \<Rightarrow> string \<Rightarrow> exn + UserInDB option" where
  "get_user users username_arg =
     (let user = find (\<lambda>u. usr_username u = username_arg) users
      in if username_arg \<noteq> []
         then (case user of None \<Rightarrow> Inl TypeError | Some u \<Rightarrow> Inr (Some (UserInDB_of_row u)))
         else Inr None)"

text \<open>\<open>authenticate_user\<close> returns \<open>False\<close> (here \<open>None\<close>) or the user.\<close>

definition authenticate_user ::
  "(string \<Rightarrow> string \<Rightarrow> bool) \<Rightarrow> users_row list \<Rightarrow> string \<Rightarrow> string \<Rightarrow> exn + UserInDB option" where
  "authenticate_user pwd_verify users username_arg password =
     (case get_user users username_arg of
        Inl e \<Rightarrow> Inl e
      | Inr None \<Rightarrow> Inr None
      | Inr (Some user) \<Rightarrow>
          if \<not> pwd_verify password (hashed_password user) then Inr None else Inr (Some user))"

section \<open>Tokens (src/main.py, lines 135-163)\<close>

text \<open>
  Times are microseconds since the epoch, the resolution of \<open>datetime\<close> and
  \<open>timedelta\<close>; \<open>now\<close> is what \<open>datetime.utcnow()\<close> returns in the call. A \<open>datetime\<close>
  lies between \<open>datetime.min\<close> (year 1) and \<open>datetime.max\<close> (the last microsecond of
  year 9999); an addition that leaves this range raises \<open>OverflowError\<close>.
\<close>

definition datetime_min :: int where
  "datetime_min = - 62135596800000000"

definition datetime_max :: int where
  "datetime_max = 253402300799999999"

definition in_datetime_range :: "int \<Rightarrow> bool" where
  "in_datetime_range t = (datetime_min \<le> t \<and> t \<le> datetime_max)"

definition timedelta_minutes :: "int \<Rightarrow> int" where
  "timedelta_minutes m = m * 60 * 1000000"

text \<open>
  \<open>jwt.encode\<close> and \<open>jwt.decode\<close> are python-jose's. The values of the dictionary given
  to \<open>jwt.encode\<close> are strings, integers and datetimes; the claims of a token are JSON
  values: strings, integers, and the others (null, booleans, other numbers, arrays,
  objects), which the model keeps opaque. The signature is symbolic: a token is its
  claims together with the key and the algorithm it was signed with, or a string that
  does not parse.

  \<open>jwt_encode\<close> turns a \<open>datetime\<close> under \<open>exp\<close>, \<open>iat\<close> or \<open>nbf\<close> into whole seconds
  and cannot serialise a \<open>datetime\<close> anywhere else.

  \<open>jwt_decode\<close> checks the signature and that the algorithm is allowed, and then
  the registered claims in jose's order, with the options \<open>get_current_user\<close> leaves
  at their defaults (no audience, issuer, subject or access token, no leeway): \<open>iat\<close>
  must convert with \<open>int()\<close>; \<open>nbf\<close> must convert and not lie after the current whole
  second; \<open>exp\<close> must convert and not be smaller than the current whole second, or the
  token has expired; a token with an \<open>aud\<close> claim is rejected, no audience being
  expected; \<open>sub\<close> and \<open>jti\<close> must be strings; a token with an \<open>at_hash\<close> claim is
  rejected, no access token being given. \<open>int()\<close> of a claim that is not an integer
  is the parameter \<open>py_int\<close>; its \<open>ValueError\<close> becomes a \<open>JWTClaimsError\<close>, any other
  exception it raises leaves \<open>jwt.decode\<close> as it is.
\<close>

datatype pyval = PStr string | PInt int | PDatetime int

datatype jval = JStr string | JInt int | JOther nat

datatype jwt = JWT "(string \<times> jval) list" string string | Malformed string

record Token =
  access_token :: jwt
  token_type :: string

fun is_datetime :: "pyval \<Rightarrow> bool" where
  "is_datetime (PDatetime t) = True"
| "is_datetime v = False"

fun json_of :: "string \<Rightarrow> pyval \<Rightarrow> jval option" where
  "json_of k (PStr s) = Some (JStr s)"
| "json_of k (PInt i) = Some (JInt i)"
| "json_of k (PDatetime t) =
     (if k \<in> {''exp'', ''iat'', ''nbf''} then Some (JInt (t div 1000000)) else None)"

fun encode_claims :: "(string \<times> pyval) list \<Rightarrow> (string \<times> jval) list option" where
  "encode_claims [] = Some []"
| "encode_claims ((k, v) # rest) =
     (case json_of k v of
        None \<Rightarrow> None
      | Some j \<Rightarrow> (case encode_claims rest of None \<Rightarrow> None | Some js \<Rightarrow> Some ((k, j) # js)))"

definition jwt_encode :: "(string \<times> pyval) list \<Rightarrow> string \<Rightarrow> string \<Rightarrow> exn + jwt" where
  "jwt_encode claims key algorithm =
     (case encode_claims claims of
        None \<Rightarrow> Inl TypeError
      | Some payload \<Rightarrow> Inr (JWT payload key algorithm))"

definition int_of_claim :: "(jval \<Rightarrow> exn + int) \<Rightarrow> jval \<Rightarrow> exn + int" where
  "int_of_claim py_int v = (case v of JInt e \<Rightarrow> Inr e | JStr s \<Rightarrow> py_int v | JOther n \<Rightarrow> py_int v)"

definition claim_to_int :: "(jval \<Rightarrow> exn + int) \<Rightarrow> jval \<Rightarrow> exn + int" where
  "claim_to_int py_int v =
     (case int_of_claim py_int v of
        Inl e \<Rightarrow> if e = ValueError then Inl (JWTError JWTClaimsError) else Inl e
      | Inr i \<Rightarrow> Inr i)"

definition validate_iat :: "(jval \<Rightarrow> exn + int) \<Rightarrow> (string \<times> jval) list \<Rightarrow> exn option" where
  "validate_iat py_int claims =
     (case map_of claims ''iat'' of
        None \<Rightarrow> None
      | Some v \<Rightarrow> (case claim_to_int py_int v of Inl e \<Rightarrow> Some e | Inr iat \<Rightarrow> None))"

definition validate_nbf :: "(jval \<Rightarrow> exn + int) \<Rightarrow> (string \<times> jval) list \<Rightarrow> int \<Rightarrow> exn option" where
  "validate_nbf py_int claims now =
     (case map_of claims ''nbf'' of
        None \<Rightarrow> None
      | Some v \<Rightarrow>
          (case claim_to_int py_int v of
             Inl e \<Rightarrow> Some e
           | Inr nbf \<Rightarrow> if now div 1000000 < nbf then Some (JWTError JWTClaimsError) else None))"

definition validate_exp :: "(jval \<Rightarrow> exn + int) \<Rightarrow> (string \<times> jval) list \<Rightarrow> int \<Rightarrow> exn option" where
  "validate_exp py_int claims now =
     (case map_of claims ''exp'' of
        None \<Rightarrow> None
      | Some v \<Rightarrow>
          (case claim_to_int py_int v of
             Inl e \<Rightarrow> Some e
           | Inr exp_seconds \<Rightarrow>
               if exp_seconds < now div 1000000 then Some (JWTError ExpiredSignatureError) else None))"

definition validate_aud :: "(string \<times> jval) list \<Rightarrow> exn option" where
  "validate_aud claims =
     (case map_of claims ''aud'' of None \<Rightarrow> None | Some v \<Rightarrow> Some (JWTError JWTClaimsError))"

definition validate_sub :: "(string \<times> jval) list \<Rightarrow> exn option" where
  "validate_sub claims =
     (case map_of claims ''sub'' of
        None \<Rightarrow> None
      | Some (JStr s) \<Rightarrow> None
      | Some _ \<Rightarrow> Some (JWTError JWTClaimsError))"

definition validate_jti :: "(string \<times> jval) list \<Rightarrow> exn option" where
  "validate_jti claims =
     (case map_of claims ''jti'' of
        None \<Rightarrow> None
      | Some (JStr s) \<Rightarrow> None
      | Some _ \<Rightarrow> Some (JWTError JWTClaimsError))"

definition validate_at_hash :: "(string \<times> jval) list \<Rightarrow> exn option" where
  "validate_at_hash claims =
     (case map_of claims ''at_hash'' of None \<Rightarrow> None | Some v \<Rightarrow> Some (JWTError JWTClaimsError))"

text \<open>The checks run in order, and the first that fails raises.\<close>

fun first_error :: "exn option list \<Rightarrow> exn option" where
  "first_error [] = None"
| "first_error (None # checks) = first_error checks"
| "first_error (Some e # checks) = Some e"

definition validate_claims :: "(jval \<Rightarrow> exn + int) \<Rightarrow> (string \<times> jval) list \<Rightarrow> int \<Rightarrow> exn option" where
  "validate_claims py_int claims now =
     first_error [validate_iat py_int claims, validate_nbf py_int claims now,
                  validate_exp py_int claims now, validate_aud claims, validate_sub claims,
                  validate_jti claims, validate_at_hash claims]"

definition jwt_decode ::
  "(jval \<Rightarrow> exn + int) \<Rightarrow> jwt \<Rightarrow> string \<Rightarrow> string list \<Rightarrow> int \<Rightarrow> exn + (string \<times> jval) list" where
  "jwt_decode py_int token key algorithms now =
     (case token of
        Malformed s \<Rightarrow> Inl (JWTError JWTError_base)
      | JWT claims k a \<Rightarrow>
          if k \<noteq> key \<or> a \<notin> set algorithms then Inl (JWTError JWTError_base)
          else (case validate_claims py_int claims now of
                  Some err \<Rightarrow> Inl err
                | None \<Rightarrow> Inr claims))"

text \<open>
  \<open>create_access_token\<close>: \<open>if expires_delta:\<close> is false for \<open>None\<close> and for a zero
  \<open>timedelta\<close>.
\<close>

definition create_access_token :: "(string \<times> pyval) list \<Rightarrow> int option \<Rightarrow> int \<Rightarrow> exn + jwt" where
  "create_access_token data expires_delta now =
     (let to_encode = data;
          expire = (case expires_delta of
                      Some d \<Rightarrow> if d \<noteq> 0 then now + d else now + timedelta_minutes 15
                    | None \<Rightarrow> now + timedelta_minutes 15)
      in if \<not> in_datetime_range expire then Inl OverflowError
         else jwt_encode (AList.update ''exp'' (PDatetime expire) to_encode) SECRET_KEY ALGORITHM)"

definition credential_exception :: exn where
  "credential_exception =
     HTTPException 401 ''Could not validate credentials'' [(''WWW-Authenticate'', ''Bearer'')]"

fun is_JWTError :: "exn \<Rightarrow> bool" where
  "is_JWTError (JWTError k) = True"
| "is_JWTError e = False"

text \<open>
  The \<open>try\<close> block of \<open>get_current_user\<close>: the username in \<open>token_data\<close>, or the
  credential exception (raised in the block for a missing \<open>sub\<close>, and by the
  \<open>except JWTError\<close> clause for every \<open>JWTError\<close> of \<open>jwt.decode\<close>); an exception of
  another class is not caught.
\<close>

definition get_current_user_token_data :: "(jval \<Rightarrow> exn + int) \<Rightarrow> jwt \<Rightarrow> int \<Rightarrow> exn + string" where
  "get_current_user_token_data py_int token now =
     (case jwt_decode py_int token SECRET_KEY [ALGORITHM] now of
        Inl e \<Rightarrow> if is_JWTError e then Inl credential_exception else Inl e
      | Inr payload \<Rightarrow>
          (case map_of payload ''sub'' of
             None \<Rightarrow> Inl credential_exception
           | Some (JStr username_arg) \<Rightarrow> Inr username_arg
           | Some _ \<Rightarrow> Inl ValidationError))"

definition get_current_user ::
  "(jval \<Rightarrow> exn + int) \<Rightarrow> users_row list \<Rightarrow> jwt \<Rightarrow> int \<Rightarrow> exn + UserInDB" where
  "get_current_user py_int users token now =
     (case get_current_user_token_data py_int token now of
        Inl e \<Rightarrow> Inl e
      | Inr username_arg \<Rightarrow>
          (case get_user users username_arg of
             Inl e \<Rightarrow> Inl e
           | Inr None \<Rightarrow> Inl credential_exception
           | Inr (Some user) \<Rightarrow> Inr user))"

definition login_for_access_token ::
  "(string \<Rightarrow> string \<Rightarrow> bool) \<Rightarrow> users_row list \<Rightarrow> int \<Rightarrow> string \<Rightarrow> string \<Rightarrow> exn + Token" where
  "login_for_access_token pwd_verify users now form_username form_password =
     (case authenticate_user pwd_verify users form_username form_password of
        Inl e \<Rightarrow> Inl e
      | Inr None \<Rightarrow>
          Inl (HTTPException 401 ''Incorrect username or password'' [(''WWW-Authenticate'', ''Bearer'')])
      | Inr (Some user) \<Rightarrow>
          (let access_token_expires = timedelta_minutes ACCESS_TOKEN_EXPIRE_MINUTES
           in case create_access_token [(''sub'', PStr (username user))] (Some access_token_expires) now of
                Inl e \<Rightarrow> Inl e
              | Inr tok \<Rightarrow> Inr \<lparr>access_token = tok, token_type = ''bearer''\<rparr>))"

section \<open>Example states\<close>

definition db2 :: car_models_db where
  "db2 = \<lparr>car_models =
      [\<lparr>col_id = 1, col_manufacturer = ''Acme'', col_model = ''X1'', col_year = 2020,
        col_price = Finite 19999.99, col_image_path = Some ''uploaded_images/x1.png''\<rparr>,
       \<lparr>col_id = 2, col_manufacturer = ''Bolt'', col_model = ''B2'', col_year = 2018,
        col_price = Finite 8500, col_image_path = None\<rparr>],
     sqlite_sequence = 2\<rparr>"

definition cato :: CarModel where
  "cato = \<lparr>manufacturer = ''Cato'', model = ''C3'', year = 2021, price = Num (Finite 100)\<rparr>"


definition db_full :: car_models_db where
  "db_full = \<lparr>car_models = [], sqlite_sequence = 9223372036854775807\<rparr>"


definition st2 :: app_state where
  "st2 = \<lparr>database = db2, files = [''uploaded_images/x1.png'' \<mapsto> ''PNG1'']\<rparr>"

definition photo :: UploadFile where
  "photo = \<lparr>filename = ''c3.png'', file_bytes = ''PNG3''\<rparr>"

definition photo_again :: UploadFile where
  "photo_again = \<lparr>filename = ''x1.png'', file_bytes = ''PNG9''\<rparr>"

definition no_directory ::
  "app_state \<Rightarrow> int \<Rightarrow> UploadFile \<Rightarrow> (exn + int \<times> (string \<times> string) list) \<times> app_state" where
  "no_directory st car_model_id file = (Inl OSError, st)"

definition users1 :: "users_row list" where
  "users1 = [\<lparr>usr_id = 1, usr_username = ''admin'', usr_email = ''example@example.com'',
              usr_full_name = None, usr_hashed_password = ''hash-of-admin123'',
              usr_disabled = False\<rparr>]"

definition toy_verify :: "string \<Rightarrow> string \<Rightarrow> bool" where
  "toy_verify plain hashed = (hashed = ''hash-of-'' @ plain)"

definition toy_int :: "jval \<Rightarrow> exn + int" where
  "toy_int v = (if v = JStr ''300'' then Inr 300 else if v = JOther 0 then Inl TypeError else Inl ValueError)"

definition expired_token :: jwt where
  "expired_token = JWT [(''sub'', JStr ''admin''), (''exp'', JInt 100)] SECRET_KEY ALGORITHM"

definition early_token :: jwt where
  "early_token = JWT [(''sub'', JStr ''admin''), (''nbf'', JOther 0), (''exp'', JInt 100)]
     SECRET_KEY ALGORITHM"

definition no_sub_token :: jwt where
  "no_sub_token = JWT [(''exp'', JInt 300)] SECRET_KEY ALGORITHM"

section \<open>Facts about the statements\<close>

lemma fold_max_ge: "a \<le> fold max xs (a::int)"
proof (induction xs arbitrary: a)
  case Nil
  show ?case by simp
next
  case (Cons y ys)
  have "a \<le> max y a" by simp
  also have "\<dots> \<le> fold max ys (max y a)" by (rule Cons.IH)
  finally show ?case by simp
qed

lemma fold_max_mem: "x \<in> set xs \<Longrightarrow> x \<le> fold max xs (a::int)"
proof (induction xs arbitrary: a)
  case Nil
  then show ?case by simp
next
  case (Cons y ys)
  show ?case
  proof (cases "x = y")
    case True
    have "y \<le> max y a" by simp
    also have "\<dots> \<le> fold max ys (max y a)" by (rule fold_max_ge)
    finally show ?thesis using True by simp
  next
    case False
    with Cons.prems have "x \<in> set ys" by simp
    then show ?thesis using Cons.IH by simp
  qed
qed

lemma next_rowid_fresh: "next_rowid db \<notin> col_id ` set (car_models db)"
proof
  assume "next_rowid db \<in> col_id ` set (car_models db)"
  then have "next_rowid db \<in> set (map col_id (car_models db))" by simp
  then have "next_rowid db \<le> fold max (map col_id (car_models db)) (sqlite_sequence db)"
    by (rule fold_max_mem)
  then show False by (simp add: next_rowid_def)
qed

lemma next_rowid_above_sequence: "sqlite_sequence db < next_rowid db"
  using fold_max_ge [of "sqlite_sequence db" "map col_id (car_models db)"]
  by (simp add: next_rowid_def)

lemma find_absent: "k \<notin> col_id ` set rs \<Longrightarrow> find (\<lambda>r. col_id r = k) rs = None"
  by (induction rs) auto

lemma find_append_absent:
  "k \<notin> col_id ` set rs \<Longrightarrow> find (\<lambda>r. col_id r = k) (rs @ qs) = find (\<lambda>r. col_id r = k) qs"
  by (induction rs) auto

lemma filter_absent: "k \<notin> col_id ` set rs \<Longrightarrow> filter (\<lambda>r. col_id r = k) rs = []"
  by (induction rs) auto

lemma filter_present: "k \<in> col_id ` set rs \<Longrightarrow> filter (\<lambda>r. col_id r = k) rs \<noteq> []"
  by (induction rs) auto

lemma filter_others_absent: "k \<notin> col_id ` set rs \<Longrightarrow> filter (\<lambda>r. col_id r \<noteq> k) rs = rs"
  by (induction rs) auto

lemma map_if_absent:
  "k \<notin> col_id ` set rs \<Longrightarrow> map (\<lambda>r. if col_id r = k then f r else r) rs = rs"
  by (induction rs) auto

lemma find_deleted: "find (\<lambda>r. col_id r = k) (filter (\<lambda>r. col_id r \<noteq> k) rs) = None"
  by (induction rs) auto

lemma create_car_model_example:
  "create_car_model \<lparr>car_models = [], sqlite_sequence = 0\<rparr>
     \<lparr>manufacturer = ''Acme'', model = ''X1'', year = 2020, price = Num (Finite 19999.99)\<rparr> =
   (Inr \<lparr>manufacturer = ''Acme'', model = ''X1'', year = 2020, price = Num (Finite 19999.99),
         id_field = 1\<rparr>,
    \<lparr>car_models = [\<lparr>col_id = 1, col_manufacturer = ''Acme'', col_model = ''X1'',
                     col_year = 2020, col_price = Finite 19999.99, col_image_path = None\<rparr>],
     sqlite_sequence = 1\<rparr>)"
  by (simp add: create_car_model_def next_rowid_def sqlite_int64_def)

lemma update_car_model_success:
  assumes u: "update_car_model db car_model_id car_model = (Inr updated, db')"
  shows "\<exists>p. price car_model = Num p
    \<and> db' = db\<lparr>car_models :=
        map (\<lambda>r. if col_id r = car_model_id
                  then r\<lparr>col_manufacturer := manufacturer car_model, col_model := model car_model,
                         col_year := year car_model, col_price := p\<rparr>
                  else r) (car_models db)\<rparr>
    \<and> updated = \<lparr>manufacturer = manufacturer car_model, model = model car_model,
                 year = year car_model, price = price car_model, id_field = car_model_id\<rparr>"
  using u
  by (cases "price car_model") (auto simp: update_car_model_def Let_def split: if_splits)

lemma length_order_by: "length (order_by column desc rs) = length rs"
  by (cases column) (simp_all add: order_rows_def)






lemma set_image_path_absent:
  "car_model_id \<notin> col_id ` set (car_models db) \<Longrightarrow> set_image_path db file_location car_model_id = db"
  by (simp add: set_image_path_def map_if_absent)

lemma encode_claims_json:
  "\<not> list_ex (\<lambda>(k, v). is_datetime v) data \<Longrightarrow> \<exists>js. encode_claims data = Some js"
proof (induction data)
  case Nil
  show ?case by simp
next
  case (Cons kv data)
  obtain k v where kv: "kv = (k, v)" by (cases kv)
  from Cons.prems kv have v: "\<not> is_datetime v" and rest: "\<not> list_ex (\<lambda>(k, v). is_datetime v) data"
    by simp_all
  from v obtain j where "json_of k v = Some j" by (cases v) simp_all
  with Cons.IH [OF rest] kv show ?case by auto
qed

lemma exp_after_encode:
  "\<not> list_ex (\<lambda>(k, v). is_datetime v) data \<Longrightarrow>
   \<exists>js. encode_claims (AList.update ''exp'' (PDatetime t) data) = Some js
     \<and> map_of js ''exp'' = Some (JInt (t div 1000000))"
proof (induction data)
  case Nil
  show ?case by simp
next
  case (Cons kv data)
  obtain k v where kv: "kv = (k, v)" by (cases kv)
  from Cons.prems kv have v: "\<not> is_datetime v" and rest: "\<not> list_ex (\<lambda>(k, v). is_datetime v) data"
    by simp_all
  show ?case
  proof (cases "k = ''exp''")
    case True
    from encode_claims_json [OF rest] obtain js where "encode_claims data = Some js" by blast
    with True kv show ?thesis by simp
  next
    case False
    from v obtain j where "json_of k v = Some j" by (cases v) simp_all
    with Cons.IH [OF rest] False kv show ?thesis by auto
  qed
qed

lemma whole_seconds: "(now + m * 1000000) div 1000000 = now div 1000000 + (m::int)"
  by simp

lemma create_access_token_exp:
  assumes "\<not> list_ex (\<lambda>(k, v). is_datetime v) data"
    and "in_datetime_range (case expires_delta of
                              Some d \<Rightarrow> if d \<noteq> 0 then now + d else now + timedelta_minutes 15
                            | None \<Rightarrow> now + timedelta_minutes 15)"
  shows "\<exists>claims. create_access_token data expires_delta now = Inr (JWT claims SECRET_KEY ALGORITHM)
           \<and> map_of claims ''exp'' =
               Some (JInt ((case expires_delta of
                              Some d \<Rightarrow> if d \<noteq> 0 then now + d else now + timedelta_minutes 15
                            | None \<Rightarrow> now + timedelta_minutes 15) div 1000000))"
proof -
  define expire where "expire = (case expires_delta of
      Some d \<Rightarrow> if d \<noteq> 0 then now + d else now + timedelta_minutes 15
    | None \<Rightarrow> now + timedelta_minutes 15)"
  from exp_after_encode [OF assms(1), of expire] obtain js
    where "encode_claims (AList.update ''exp'' (PDatetime expire) data) = Some js"
      and "map_of js ''exp'' = Some (JInt (expire div 1000000))"
    by blast
  with assms(2) show ?thesis
    unfolding expire_def [symmetric]
    by (simp add: create_access_token_def jwt_encode_def Let_def expire_def [symmetric])
qed

lemma get_user_cases:
  "get_user users name =
     (if name = [] then Inr None
      else case find (\<lambda>u. usr_username u = name) users of
             None \<Rightarrow> Inl TypeError
           | Some u \<Rightarrow> Inr (Some (UserInDB_of_row u)))"
  by (simp add: get_user_def Let_def)

lemma login_for_access_token_failures:
  "(name \<noteq> [] \<and> find (\<lambda>u. usr_username u = name) users = None \<longrightarrow>
      login_for_access_token pwd_verify users now name password = Inl TypeError)
   \<and> (name = [] \<longrightarrow>
      login_for_access_token pwd_verify users now name password =
        Inl (HTTPException 401 ''Incorrect username or password'' [(''WWW-Authenticate'', ''Bearer'')]))
   \<and> (name \<noteq> [] \<and> find (\<lambda>u. usr_username u = name) users = Some u
        \<and> \<not> pwd_verify password (usr_hashed_password u) \<longrightarrow>
      login_for_access_token pwd_verify users now name password =
        Inl (HTTPException 401 ''Incorrect username or password'' [(''WWW-Authenticate'', ''Bearer'')]))"
  by (simp add: login_for_access_token_def authenticate_user_def get_user_cases UserInDB_of_row_def)

lemma login_succeeds_example:
  "login_for_access_token toy_verify users1 0 ''admin'' ''admin123'' =
     Inr \<lparr>access_token = JWT [(''sub'', JStr ''admin''), (''exp'', JInt 1800)] SECRET_KEY ALGORITHM,
          token_type = ''bearer''\<rparr>"
  by (simp add: login_for_access_token_def authenticate_user_def get_user_def users1_def
      toy_verify_def UserInDB_of_row_def create_access_token_def jwt_encode_def
      timedelta_minutes_def ACCESS_TOKEN_EXPIRE_MINUTES_def in_datetime_range_def
      datetime_min_def datetime_max_def)

lemma token_data_of_JWTError:
  "jwt_decode py_int token SECRET_KEY [ALGORITHM] now = Inl (JWTError k) \<Longrightarrow>
   get_current_user_token_data py_int token now = Inl credential_exception"
  by (simp add: get_current_user_token_data_def)

lemma jwt_decode_expired:
  assumes "map_of claims ''exp'' = Some v" and "int_of_claim py_int v = Inr e"
    and "e < now div 1000000"
    and "pred_option is_JWTError (validate_iat py_int claims)"
    and "pred_option is_JWTError (validate_nbf py_int claims now)"
  shows "\<exists>k. jwt_decode py_int (JWT claims key alg) SECRET_KEY [ALGORITHM] now = Inl (JWTError k)"
proof -
  have x: "validate_exp py_int claims now = Some (JWTError ExpiredSignatureError)"
    using assms(1-3) by (simp add: validate_exp_def claim_to_int_def)
  have "\<exists>k. validate_claims py_int claims now = Some (JWTError k)"
  proof (cases "validate_iat py_int claims")
    case (Some a)
    with assms(4) obtain k where "a = JWTError k" by (cases a) simp_all
    with Some show ?thesis by (simp add: validate_claims_def)
  next
    case None
    show ?thesis
    proof (cases "validate_nbf py_int claims now")
      case (Some b)
      with assms(5) obtain k where "b = JWTError k" by (cases b) simp_all
      with Some None show ?thesis by (simp add: validate_claims_def)
    next
      case n: None
      with None x show ?thesis by (simp add: validate_claims_def)
    qed
  qed
  then show ?thesis by (auto simp: jwt_decode_def)
qed

lemma uncaught_conversion_example:
  "get_current_user toy_int users1 early_token 200000000 = Inl TypeError"
  by (simp add: get_current_user_def get_current_user_token_data_def jwt_decode_def
      validate_claims_def validate_iat_def validate_nbf_def validate_exp_def validate_aud_def validate_sub_def validate_jti_def validate_at_hash_def claim_to_int_def int_of_claim_def toy_int_def early_token_def)

lemma digit_string_exp_example:
  "get_current_user toy_int users1
     (JWT [(''sub'', JStr ''admin''), (''exp'', JStr ''300'')] SECRET_KEY ALGORITHM) 200000000 =
   Inr \<lparr>username = ''admin'', email = Some ''example@example.com'', full_name = None,
        disabled = Some False, hashed_password = ''hash-of-admin123''\<rparr>"
  by (simp add: get_current_user_def get_current_user_token_data_def jwt_decode_def
      validate_claims_def validate_iat_def validate_nbf_def validate_exp_def validate_aud_def validate_sub_def validate_jti_def validate_at_hash_def claim_to_int_def int_of_claim_def toy_int_def get_user_def users1_def
      UserInDB_of_row_def)

section \<open>Create, read, update and delete\<close>

text \<open>
  C5, as the claim states it, at a year outside 64 bits: the bind of the \<open>INSERT\<close> raises
  \<open>OverflowError\<close> for \<open>year = 2^63\<close>; no row is stored and no id is returned.
\<close>

theorem create_car_model_overflow_counterexample:
  "create_car_model db2
     \<lparr>manufacturer = ''Cato'', model = ''C3'', year = 9223372036854775808,
      price = Num (Finite 100)\<rparr> = (Inl OverflowError, db2)
   \<and> (9223372036854775808 :: int) = 2 ^ 63"
  by (simp add: create_car_model_def sqlite_int64_def)

text \<open>
  C5, amended. For every car model whose year fits a signed 64-bit integer and whose price
  is not NaN, while the store can still assign a 64-bit id, \<open>create_car_model\<close> followed
  by \<open>read_car_model\<close> on the returned id yields the created object: manufacturer,
  model, year and price are the created values, and the id is newly assigned by the store
  (no row had it, and it is above every id the store assigned before). Otherwise
  \<open>create_car_model\<close> raises (\<open>OverflowError\<close> for the year, \<open>OperationalError\<close> when
  the ids are used up, \<open>IntegrityError\<close> for a NaN price) and stores nothing.
\<close>

theorem create_car_model_then_read_car_model:
  "(sqlite_int64 (year car_model) \<and> sqlite_int64 (next_rowid db) \<and> price car_model \<noteq> NaN \<longrightarrow>
      (\<exists>created db'. create_car_model db car_model = (Inr created, db')
         \<and> read_car_model db' (id_field created) = Inr created
         \<and> manufacturer created = manufacturer car_model
         \<and> model created = model car_model
         \<and> year created = year car_model
         \<and> price created = price car_model
         \<and> id_field created \<notin> col_id ` set (car_models db)
         \<and> sqlite_sequence db < id_field created))
   \<and> (\<not> sqlite_int64 (year car_model) \<longrightarrow>
        create_car_model db car_model = (Inl OverflowError, db))
   \<and> (sqlite_int64 (year car_model) \<and> \<not> sqlite_int64 (next_rowid db) \<longrightarrow>
        create_car_model db car_model = (Inl OperationalError, db))
   \<and> (sqlite_int64 (year car_model) \<and> sqlite_int64 (next_rowid db) \<and> price car_model = NaN \<longrightarrow>
        create_car_model db car_model = (Inl IntegrityError, db))"
proof (intro conjI impI)
  assume h: "sqlite_int64 (year car_model) \<and> sqlite_int64 (next_rowid db) \<and> price car_model \<noteq> NaN"
  then obtain p where p: "price car_model = Num p" by (cases "price car_model") auto
  show "\<exists>created db'. create_car_model db car_model = (Inr created, db')
         \<and> read_car_model db' (id_field created) = Inr created
         \<and> manufacturer created = manufacturer car_model
         \<and> model created = model car_model
         \<and> year created = year car_model
         \<and> price created = price car_model
         \<and> id_field created \<notin> col_id ` set (car_models db)
         \<and> sqlite_sequence db < id_field created"
    using h p next_rowid_fresh [of db] next_rowid_above_sequence [of db]
    by (simp add: create_car_model_def read_car_model_def Let_def find_append_absent
        CarModelInDB_of_row_def)
next
  assume "\<not> sqlite_int64 (year car_model)"
  then show "create_car_model db car_model = (Inl OverflowError, db)"
    by (simp add: create_car_model_def Let_def)
next
  assume "sqlite_int64 (year car_model) \<and> \<not> sqlite_int64 (next_rowid db)"
  then show "create_car_model db car_model = (Inl OperationalError, db)"
    by (simp add: create_car_model_def Let_def)
next
  assume "sqlite_int64 (year car_model) \<and> sqlite_int64 (next_rowid db) \<and> price car_model = NaN"
  then show "create_car_model db car_model = (Inl IntegrityError, db)"
    by (simp add: create_car_model_def Let_def)
qed

theorem create_car_model_then_read_car_model_witness:
  "sqlite_int64 (year cato) \<and> sqlite_int64 (next_rowid db2) \<and> price cato \<noteq> NaN
   \<and> fst (create_car_model db2 cato) =
       Inr \<lparr>manufacturer = ''Cato'', model = ''C3'', year = 2021, price = Num (Finite 100),
            id_field = 3\<rparr>
   \<and> read_car_model (snd (create_car_model db2 cato)) 3 =
       Inr \<lparr>manufacturer = ''Cato'', model = ''C3'', year = 2021, price = Num (Finite 100),
            id_field = 3\<rparr>
   \<and> \<not> sqlite_int64 (year (cato\<lparr>year := 9223372036854775808\<rparr>))
   \<and> create_car_model db2 (cato\<lparr>year := 9223372036854775808\<rparr>) = (Inl OverflowError, db2)
   \<and> price (cato\<lparr>price := NaN\<rparr>) = NaN
   \<and> create_car_model db2 (cato\<lparr>price := NaN\<rparr>) = (Inl IntegrityError, db2)
   \<and> \<not> sqlite_int64 (next_rowid db_full)
   \<and> create_car_model db_full cato = (Inl OperationalError, db_full)"
proof -
  have h: "sqlite_int64 (year cato) \<and> sqlite_int64 (next_rowid db2) \<and> price cato \<noteq> NaN"
    by (simp add: cato_def db2_def next_rowid_def sqlite_int64_def)
  have c: "fst (create_car_model db2 cato) =
       Inr \<lparr>manufacturer = ''Cato'', model = ''C3'', year = 2021, price = Num (Finite 100),
            id_field = 3\<rparr>"
    by (simp add: create_car_model_def cato_def db2_def next_rowid_def sqlite_int64_def)
  from create_car_model_then_read_car_model [of cato db2] h
  obtain created db' where cr: "create_car_model db2 cato = (Inr created, db')"
    and rd: "read_car_model db' (id_field created) = Inr created"
    by blast
  from cr c have created: "created = \<lparr>manufacturer = ''Cato'', model = ''C3'', year = 2021,
      price = Num (Finite 100), id_field = 3\<rparr>" by simp
  from cr rd created have r: "read_car_model (snd (create_car_model db2 cato)) 3 =
       Inr \<lparr>manufacturer = ''Cato'', model = ''C3'', year = 2021, price = Num (Finite 100),
            id_field = 3\<rparr>" by simp
  have o1: "\<not> sqlite_int64 (year (cato\<lparr>year := 9223372036854775808\<rparr>))"
    by (simp add: sqlite_int64_def)
  with create_car_model_then_read_car_model [of "cato\<lparr>year := 9223372036854775808\<rparr>" db2]
  have o2: "create_car_model db2 (cato\<lparr>year := 9223372036854775808\<rparr>) = (Inl OverflowError, db2)"
    by blast
  have n1: "sqlite_int64 (year (cato\<lparr>price := NaN\<rparr>)) \<and> sqlite_int64 (next_rowid db2)
      \<and> price (cato\<lparr>price := NaN\<rparr>) = NaN"
    using h by simp
  with create_car_model_then_read_car_model [of "cato\<lparr>price := NaN\<rparr>" db2]
  have n2: "create_car_model db2 (cato\<lparr>price := NaN\<rparr>) = (Inl IntegrityError, db2)"
    by blast
  have f1: "sqlite_int64 (year cato) \<and> \<not> sqlite_int64 (next_rowid db_full)"
    by (simp add: cato_def db_full_def next_rowid_def sqlite_int64_def)
  with create_car_model_then_read_car_model [of cato db_full]
  have f2: "create_car_model db_full cato = (Inl OperationalError, db_full)"
    by blast
  from h c r o1 o2 n1 n2 f1 f2 show ?thesis by simp
qed

text \<open>
  C6, as the claim states it, at an id outside 64 bits: no row has the id \<open>2^63\<close>, and
  \<open>update_car_model\<close> raises \<open>OverflowError\<close> at the bind instead of failing with 404.
\<close>

theorem update_car_model_overflow_counterexample:
  "9223372036854775808 \<notin> col_id ` set (car_models db2)
   \<and> update_car_model db2 9223372036854775808 cato = (Inl OverflowError, db2)
   \<and> (9223372036854775808 :: int) = 2 ^ 63"
  by (simp add: update_car_model_def sqlite_int64_def db2_def)

text \<open>
  C6, amended. For every id with no matching row, when the id and the year of the body fit
  a signed 64-bit integer, \<open>update_car_model\<close> fails with HTTP 404 and the database after
  the call is the database before it (also for a NaN price, which reaches no row);
  when one of them does not fit, it raises \<open>OverflowError\<close>, and the database is
  unchanged as well.
\<close>

theorem update_car_model_not_found:
  assumes "car_model_id \<notin> col_id ` set (car_models db)"
  shows "(sqlite_int64 car_model_id \<and> sqlite_int64 (year car_model) \<longrightarrow>
            update_car_model db car_model_id car_model =
              (Inl (HTTPException 404 ''CarModel not found'' []), db))
       \<and> (\<not> (sqlite_int64 car_model_id \<and> sqlite_int64 (year car_model)) \<longrightarrow>
            update_car_model db car_model_id car_model = (Inl OverflowError, db))"
proof (intro conjI impI)
  assume "sqlite_int64 car_model_id \<and> sqlite_int64 (year car_model)"
  with assms show "update_car_model db car_model_id car_model =
      (Inl (HTTPException 404 ''CarModel not found'' []), db)"
    by (cases "price car_model")
      (simp_all add: update_car_model_def Let_def filter_absent map_if_absent)
next
  assume "\<not> (sqlite_int64 car_model_id \<and> sqlite_int64 (year car_model))"
  then show "update_car_model db car_model_id car_model = (Inl OverflowError, db)"
    by (auto simp add: update_car_model_def Let_def)
qed

theorem update_car_model_not_found_witness:
  "3 \<notin> col_id ` set (car_models db2)
   \<and> sqlite_int64 3 \<and> sqlite_int64 (year cato)
   \<and> update_car_model db2 3 cato = (Inl (HTTPException 404 ''CarModel not found'' []), db2)
   \<and> update_car_model db2 3 (cato\<lparr>price := NaN\<rparr>) =
       (Inl (HTTPException 404 ''CarModel not found'' []), db2)
   \<and> 9223372036854775808 \<notin> col_id ` set (car_models db2)
   \<and> \<not> sqlite_int64 9223372036854775808
   \<and> update_car_model db2 9223372036854775808 cato = (Inl OverflowError, db2)"
proof -
  have h: "3 \<notin> col_id ` set (car_models db2)" by (simp add: db2_def)
  have r: "sqlite_int64 3" "sqlite_int64 (year cato)" "sqlite_int64 (year (cato\<lparr>price := NaN\<rparr>))"
    by (simp_all add: sqlite_int64_def cato_def)
  have h': "9223372036854775808 \<notin> col_id ` set (car_models db2)" by (simp add: db2_def)
  have r': "\<not> sqlite_int64 9223372036854775808" by (simp add: sqlite_int64_def)
  from update_car_model_not_found [OF h, of cato] r
  have a: "update_car_model db2 3 cato = (Inl (HTTPException 404 ''CarModel not found'' []), db2)"
    by blast
  from update_car_model_not_found [OF h, of "cato\<lparr>price := NaN\<rparr>"] r
  have b: "update_car_model db2 3 (cato\<lparr>price := NaN\<rparr>) =
      (Inl (HTTPException 404 ''CarModel not found'' []), db2)"
    by blast
  from update_car_model_not_found [OF h', of cato] r'
  have c: "update_car_model db2 9223372036854775808 cato = (Inl OverflowError, db2)"
    by blast
  from h r h' r' a b c show ?thesis by simp
qed

text \<open>
  C7, as the claim states it, at an id outside 64 bits: no row has the id \<open>2^63\<close>, and
  \<open>delete_car_model\<close> raises \<open>OverflowError\<close> at the bind instead of failing with 404.
\<close>

theorem delete_car_model_overflow_counterexample:
  "9223372036854775808 \<notin> col_id ` set (car_models db2)
   \<and> delete_car_model db2 9223372036854775808 = (Inl OverflowError, db2)
   \<and> (9223372036854775808 :: int) = 2 ^ 63"
  by (simp add: delete_car_model_def sqlite_int64_def db2_def)

text \<open>
  C7, amended. For an id that fits a signed 64-bit integer: \<open>delete_car_model\<close> on an id
  with no row fails with HTTP 404 (and leaves the table as it was); on an id with a row it
  succeeds with status 202, and \<open>read_car_model\<close> of that id on the database after it
  fails with HTTP 404. For an id outside 64 bits it raises \<open>OverflowError\<close> and changes
  nothing.
\<close>

theorem delete_car_model_then_read_car_model:
  "(sqlite_int64 car_model_id \<and> car_model_id \<notin> col_id ` set (car_models db) \<longrightarrow>
      delete_car_model db car_model_id =
        (Inl (HTTPException 404 ''CarModel not found'' []), db))
   \<and> (sqlite_int64 car_model_id \<and> car_model_id \<in> col_id ` set (car_models db) \<longrightarrow>
      (\<exists>db'. delete_car_model db car_model_id = (Inr (202, [(''ok'', True)]), db')
         \<and> read_car_model db' car_model_id =
             Inl (HTTPException 404
               (''CarModel with id: '' @ quote @ str_int car_model_id @ quote @ '' was not found'') [])))
   \<and> (\<not> sqlite_int64 car_model_id \<longrightarrow>
      delete_car_model db car_model_id = (Inl OverflowError, db))"
proof (intro conjI impI)
  assume "sqlite_int64 car_model_id \<and> car_model_id \<notin> col_id ` set (car_models db)"
  then show "delete_car_model db car_model_id =
      (Inl (HTTPException 404 ''CarModel not found'' []), db)"
    by (simp add: delete_car_model_def Let_def filter_absent filter_others_absent)
next
  assume h: "sqlite_int64 car_model_id \<and> car_model_id \<in> col_id ` set (car_models db)"
  then have "filter (\<lambda>r. col_id r = car_model_id) (car_models db) \<noteq> []"
    by (simp add: filter_present)
  with h show "\<exists>db'. delete_car_model db car_model_id = (Inr (202, [(''ok'', True)]), db')
      \<and> read_car_model db' car_model_id =
          Inl (HTTPException 404
            (''CarModel with id: '' @ quote @ str_int car_model_id @ quote @ '' was not found'') [])"
    by (simp add: delete_car_model_def Let_def read_car_model_def find_deleted)
next
  assume "\<not> sqlite_int64 car_model_id"
  then show "delete_car_model db car_model_id = (Inl OverflowError, db)"
    by (simp add: delete_car_model_def Let_def)
qed

theorem delete_car_model_then_read_car_model_witness:
  "sqlite_int64 3 \<and> 3 \<notin> col_id ` set (car_models db2)
   \<and> delete_car_model db2 3 = (Inl (HTTPException 404 ''CarModel not found'' []), db2)
   \<and> sqlite_int64 1 \<and> 1 \<in> col_id ` set (car_models db2)
   \<and> fst (delete_car_model db2 1) = Inr (202, [(''ok'', True)])
   \<and> read_car_model (snd (delete_car_model db2 1)) 1 =
       Inl (HTTPException 404 ''CarModel with id: '1' was not found'' [])
   \<and> \<not> sqlite_int64 9223372036854775808
   \<and> delete_car_model db2 9223372036854775808 = (Inl OverflowError, db2)"
proof -
  have absent: "sqlite_int64 3 \<and> 3 \<notin> col_id ` set (car_models db2)"
    by (simp add: db2_def sqlite_int64_def)
  have present: "sqlite_int64 1 \<and> 1 \<in> col_id ` set (car_models db2)"
    by (simp add: db2_def sqlite_int64_def)
  have big: "\<not> sqlite_int64 9223372036854775808" by (simp add: sqlite_int64_def)
  have str1: "str_int 1 = ''1''" by code_simp
  from delete_car_model_then_read_car_model [of 3 db2] absent
  have a: "delete_car_model db2 3 = (Inl (HTTPException 404 ''CarModel not found'' []), db2)"
    by blast
  from delete_car_model_then_read_car_model [of 1 db2] present
  obtain db' where "delete_car_model db2 1 = (Inr (202, [(''ok'', True)]), db')"
    and "read_car_model db' 1 =
       Inl (HTTPException 404 (''CarModel with id: '' @ quote @ str_int 1 @ quote @ '' was not found'') [])"
    by blast
  then have b: "fst (delete_car_model db2 1) = Inr (202, [(''ok'', True)])"
    and c: "read_car_model (snd (delete_car_model db2 1)) 1 =
       Inl (HTTPException 404 ''CarModel with id: '1' was not found'' [])"
    by (simp_all add: str1 quote_def)
  from delete_car_model_then_read_car_model [of 9223372036854775808 db2] big
  have d: "delete_car_model db2 9223372036854775808 = (Inl OverflowError, db2)"
    by blast
  from absent a present b c big d show ?thesis by simp
qed

text \<open>
  C10. A successful \<open>update_car_model\<close> changes nothing but manufacturer, model, year and
  price of the rows with that id: every row keeps its position, its id and its image
  path, a row with another id is unchanged, and the AUTOINCREMENT counter is unchanged.
  The update of an existing id succeeds whenever the id and the year fit 64 bits and the
  price is not NaN.
\<close>

theorem update_car_model_frame:
  "(\<forall>updated db'. update_car_model db car_model_id car_model = (Inr updated, db') \<longrightarrow>
      updated = \<lparr>manufacturer = manufacturer car_model, model = model car_model,
                 year = year car_model, price = price car_model, id_field = car_model_id\<rparr>
      \<and> sqlite_sequence db' = sqlite_sequence db
      \<and> length (car_models db') = length (car_models db)
      \<and> (\<forall>i < length (car_models db).
            col_id (car_models db' ! i) = col_id (car_models db ! i)
          \<and> col_image_path (car_models db' ! i) = col_image_path (car_models db ! i)
          \<and> (col_id (car_models db ! i) \<noteq> car_model_id \<longrightarrow>
               car_models db' ! i = car_models db ! i)
          \<and> (col_id (car_models db ! i) = car_model_id \<longrightarrow>
               col_manufacturer (car_models db' ! i) = manufacturer car_model
             \<and> col_model (car_models db' ! i) = model car_model
             \<and> col_year (car_models db' ! i) = year car_model
             \<and> Num (col_price (car_models db' ! i)) = price car_model)))
   \<and> (car_model_id \<in> col_id ` set (car_models db) \<and> sqlite_int64 car_model_id
        \<and> sqlite_int64 (year car_model) \<and> price car_model \<noteq> NaN \<longrightarrow>
      (\<exists>updated db'. update_car_model db car_model_id car_model = (Inr updated, db')))"
proof (rule conjI)
  show "\<forall>updated db'. update_car_model db car_model_id car_model = (Inr updated, db') \<longrightarrow>
      updated = \<lparr>manufacturer = manufacturer car_model, model = model car_model,
                 year = year car_model, price = price car_model, id_field = car_model_id\<rparr>
      \<and> sqlite_sequence db' = sqlite_sequence db
      \<and> length (car_models db') = length (car_models db)
      \<and> (\<forall>i < length (car_models db).
            col_id (car_models db' ! i) = col_id (car_models db ! i)
          \<and> col_image_path (car_models db' ! i) = col_image_path (car_models db ! i)
          \<and> (col_id (car_models db ! i) \<noteq> car_model_id \<longrightarrow>
               car_models db' ! i = car_models db ! i)
          \<and> (col_id (car_models db ! i) = car_model_id \<longrightarrow>
               col_manufacturer (car_models db' ! i) = manufacturer car_model
             \<and> col_model (car_models db' ! i) = model car_model
             \<and> col_year (car_models db' ! i) = year car_model
             \<and> Num (col_price (car_models db' ! i)) = price car_model))"
  proof (intro allI impI)
    fix updated db'
    assume "update_car_model db car_model_id car_model = (Inr updated, db')"
    from update_car_model_success [OF this] obtain p where p: "price car_model = Num p"
      and db': "db' = db\<lparr>car_models :=
        map (\<lambda>r. if col_id r = car_model_id
                  then r\<lparr>col_manufacturer := manufacturer car_model, col_model := model car_model,
                         col_year := year car_model, col_price := p\<rparr>
                  else r) (car_models db)\<rparr>"
      and upd: "updated = \<lparr>manufacturer = manufacturer car_model, model = model car_model,
                 year = year car_model, price = price car_model, id_field = car_model_id\<rparr>"
      by blast
    show "updated = \<lparr>manufacturer = manufacturer car_model, model = model car_model,
                 year = year car_model, price = price car_model, id_field = car_model_id\<rparr>
      \<and> sqlite_sequence db' = sqlite_sequence db
      \<and> length (car_models db') = length (car_models db)
      \<and> (\<forall>i < length (car_models db).
            col_id (car_models db' ! i) = col_id (car_models db ! i)
          \<and> col_image_path (car_models db' ! i) = col_image_path (car_models db ! i)
          \<and> (col_id (car_models db ! i) \<noteq> car_model_id \<longrightarrow>
               car_models db' ! i = car_models db ! i)
          \<and> (col_id (car_models db ! i) = car_model_id \<longrightarrow>
               col_manufacturer (car_models db' ! i) = manufacturer car_model
             \<and> col_model (car_models db' ! i) = model car_model
             \<and> col_year (car_models db' ! i) = year car_model
             \<and> Num (col_price (car_models db' ! i)) = price car_model))"
      using upd p by (simp add: db')
  qed
next
  show "car_model_id \<in> col_id ` set (car_models db) \<and> sqlite_int64 car_model_id
        \<and> sqlite_int64 (year car_model) \<and> price car_model \<noteq> NaN \<longrightarrow>
      (\<exists>updated db'. update_car_model db car_model_id car_model = (Inr updated, db'))"
  proof
    assume h: "car_model_id \<in> col_id ` set (car_models db) \<and> sqlite_int64 car_model_id
        \<and> sqlite_int64 (year car_model) \<and> price car_model \<noteq> NaN"
    then obtain p where p: "price car_model = Num p" by (cases "price car_model") auto
    from h have "filter (\<lambda>r. col_id r = car_model_id) (car_models db) \<noteq> []"
      by (simp add: filter_present)
    with h p show "\<exists>updated db'. update_car_model db car_model_id car_model = (Inr updated, db')"
      by (simp add: update_car_model_def Let_def)
  qed
qed

theorem update_car_model_frame_witness:
  "1 \<in> col_id ` set (car_models db2) \<and> sqlite_int64 1 \<and> sqlite_int64 (year cato)
   \<and> price cato \<noteq> NaN
   \<and> fst (update_car_model db2 1 cato) =
       Inr \<lparr>manufacturer = ''Cato'', model = ''C3'', year = 2021, price = Num (Finite 100),
            id_field = 1\<rparr>
   \<and> car_models (snd (update_car_model db2 1 cato)) =
       [\<lparr>col_id = 1, col_manufacturer = ''Cato'', col_model = ''C3'', col_year = 2021,
         col_price = Finite 100, col_image_path = Some ''uploaded_images/x1.png''\<rparr>,
        \<lparr>col_id = 2, col_manufacturer = ''Bolt'', col_model = ''B2'', col_year = 2018,
         col_price = Finite 8500, col_image_path = None\<rparr>]"
proof -
  have present: "1 \<in> col_id ` set (car_models db2) \<and> sqlite_int64 1 \<and> sqlite_int64 (year cato)
      \<and> price cato \<noteq> NaN"
    by (simp add: db2_def cato_def sqlite_int64_def)
  note t = update_car_model_frame [of db2 1 cato]
  from t present obtain updated db' where u: "update_car_model db2 1 cato = (Inr updated, db')"
    by blast
  with t have upd: "updated = \<lparr>manufacturer = manufacturer cato, model = model cato,
        year = year cato, price = price cato, id_field = 1\<rparr>"
    and len: "length (car_models db') = length (car_models db2)"
    and rows: "\<forall>i < length (car_models db2).
        col_id (car_models db' ! i) = col_id (car_models db2 ! i)
      \<and> col_image_path (car_models db' ! i) = col_image_path (car_models db2 ! i)
      \<and> (col_id (car_models db2 ! i) \<noteq> 1 \<longrightarrow> car_models db' ! i = car_models db2 ! i)
      \<and> (col_id (car_models db2 ! i) = 1 \<longrightarrow>
           col_manufacturer (car_models db' ! i) = manufacturer cato
         \<and> col_model (car_models db' ! i) = model cato
         \<and> col_year (car_models db' ! i) = year cato
         \<and> Num (col_price (car_models db' ! i)) = price cato)"
    by blast+
  have l2: "length (car_models db') = 2" using len by (simp add: db2_def)
  from rows have r0: "col_id (car_models db' ! 0) = 1"
      "col_image_path (car_models db' ! 0) = Some ''uploaded_images/x1.png''"
      "col_manufacturer (car_models db' ! 0) = ''Cato''"
      "col_model (car_models db' ! 0) = ''C3''"
      "col_year (car_models db' ! 0) = 2021"
      "col_price (car_models db' ! 0) = Finite 100"
    by (simp_all add: db2_def cato_def)
  from rows have r1: "car_models db' ! 1 = car_models db2 ! 1"
    by (simp add: db2_def)
  have first: "car_models db' ! 0 =
      \<lparr>col_id = 1, col_manufacturer = ''Cato'', col_model = ''C3'', col_year = 2021,
       col_price = Finite 100, col_image_path = Some ''uploaded_images/x1.png''\<rparr>"
    using r0 by (cases "car_models db' ! 0") simp
  have "car_models db' = [car_models db' ! 0, car_models db' ! 1]"
    using l2 by (cases "car_models db'"; cases "tl (car_models db')") auto
  with first r1 have "car_models db' =
      [\<lparr>col_id = 1, col_manufacturer = ''Cato'', col_model = ''C3'', col_year = 2021,
        col_price = Finite 100, col_image_path = Some ''uploaded_images/x1.png''\<rparr>,
       \<lparr>col_id = 2, col_manufacturer = ''Bolt'', col_model = ''B2'', col_year = 2018,
        col_price = Finite 8500, col_image_path = None\<rparr>]"
    by (simp add: db2_def)
  with present u upd show ?thesis by (simp add: cato_def)
qed

section \<open>Listing\<close>




section \<open>Image upload for an id without a row\<close>

text \<open>
  C9, as the claim states it, where a row already holds the path: row 1 of the example
  state records \<open>uploaded_images/x1.png\<close> from an earlier upload. A POST for id 3, which
  has no row, with a file of the same name overwrites that file and reports success with
  status 201, and row 1 records the path of the file just written.
\<close>

theorem upload_car_model_image_recorded_counterexample:
  "3 \<notin> col_id ` set (car_models (database st2))
   \<and> fst (upload_car_model_image no_directory st2 3 photo_again) =
       Inr (201, [(''info'', ''image of Car Model id:'3' was set to 'x1.png'' @ quote)])
   \<and> files (snd (upload_car_model_image no_directory st2 3 photo_again)) ''uploaded_images/x1.png''
       = Some ''PNG9''
   \<and> list_ex (\<lambda>r. col_image_path r = Some ''uploaded_images/x1.png'')
        (car_models (database (snd (upload_car_model_image no_directory st2 3 photo_again))))"
proof -
  have str3: "str_int 3 = ''3''" by code_simp
  show ?thesis
    by (simp add: upload_car_model_image_def set_image_path_def Let_def st2_def db2_def
        photo_again_def IMAGE_DIR_def quote_def str3 plain_filename_def sqlite_int64_def)
qed

text \<open>
  C9, amended. For an id with no matching row that fits 64 bits, and a plain file name,
  both handlers write the file first. The PUT handler \<open>update_car_model_image\<close> then
  fails with HTTP 404. The POST handler \<open>upload_car_model_image\<close> checks nothing and
  reports success with status 201. In both cases the state after the call is the state
  before it with the file written: no row is changed, so the rows that record the written
  path after the upload are those that recorded it before (none, unless an earlier upload
  used the same file name).
\<close>

theorem image_upload_without_row:
  assumes "car_model_id \<notin> col_id ` set (car_models (database st))"
    and "sqlite_int64 car_model_id"
    and "plain_filename (filename file)"
  shows "update_car_model_image other_put st car_model_id file =
           (Inl (HTTPException 404 ''CarModel not found'' []),
            st\<lparr>files := (files st)(IMAGE_DIR @ ''/'' @ filename file \<mapsto> file_bytes file)\<rparr>)
       \<and> upload_car_model_image other_post st car_model_id file =
           (Inr (201, [(''info'', ''image of Car Model id:'' @ quote @ str_int car_model_id @ quote
                                  @ '' was set to '' @ quote @ filename file @ quote)]),
            st\<lparr>files := (files st)(IMAGE_DIR @ ''/'' @ filename file \<mapsto> file_bytes file)\<rparr>)
       \<and> filter (\<lambda>r. col_image_path r = Some (IMAGE_DIR @ ''/'' @ filename file))
            (car_models (database (snd (upload_car_model_image other_post st car_model_id file))))
          = filter (\<lambda>r. col_image_path r = Some (IMAGE_DIR @ ''/'' @ filename file))
            (car_models (database st))"
  using assms
  by (simp add: update_car_model_image_def upload_car_model_image_def Let_def
      set_image_path_absent filter_absent)

theorem image_upload_without_row_witness:
  "3 \<notin> col_id ` set (car_models (database st2)) \<and> sqlite_int64 3
   \<and> plain_filename (filename photo)
   \<and> fst (update_car_model_image no_directory st2 3 photo) =
       Inl (HTTPException 404 ''CarModel not found'' [])
   \<and> fst (upload_car_model_image no_directory st2 3 photo) =
       Inr (201, [(''info'', ''image of Car Model id:'3' was set to 'c3.png'' @ quote)])
   \<and> database (snd (upload_car_model_image no_directory st2 3 photo)) = db2
   \<and> files (snd (upload_car_model_image no_directory st2 3 photo)) ''uploaded_images/c3.png''
       = Some ''PNG3''
   \<and> files (snd (update_car_model_image no_directory st2 3 photo)) ''uploaded_images/c3.png''
       = Some ''PNG3''
   \<and> filter (\<lambda>r. col_image_path r = Some ''uploaded_images/c3.png'')
        (car_models (database (snd (upload_car_model_image no_directory st2 3 photo)))) = []"
proof -
  have absent: "3 \<notin> col_id ` set (car_models (database st2))" by (simp add: st2_def db2_def)
  have range: "sqlite_int64 3" by (simp add: sqlite_int64_def)
  have plain: "plain_filename (filename photo)" by (simp add: plain_filename_def photo_def)
  have str3: "str_int 3 = ''3''" by code_simp
  from image_upload_without_row [OF absent range plain, of no_directory no_directory]
    absent range plain
  show ?thesis
    by (simp add: str3 quote_def photo_def IMAGE_DIR_def st2_def db2_def)
qed

section \<open>Tokens: expiry, round trip and rejection\<close>

text \<open>
  C2, as the claim states it, at \<open>now = 0\<close>: without \<open>expires_delta\<close> the token's
  \<open>exp\<close> is 15 minutes after \<open>now\<close>, not 30.
\<close>

theorem create_access_token_default_expiry_counterexample:
  "create_access_token [(''sub'', PStr ''admin'')] None 0 =
     Inr (JWT [(''sub'', JStr ''admin''), (''exp'', JInt (15 * 60))] SECRET_KEY ALGORITHM)
   \<and> create_access_token [(''sub'', PStr ''admin'')] None 0 \<noteq>
     Inr (JWT [(''sub'', JStr ''admin''), (''exp'', JInt (0 + 30 * 60))] SECRET_KEY ALGORITHM)"
  by (simp add: create_access_token_def jwt_encode_def timedelta_minutes_def
      in_datetime_range_def datetime_min_def datetime_max_def)

text \<open>
  C2, amended. When the caller of \<open>create_access_token\<close> passes no \<open>expires_delta\<close>
  (or a zero one), the issued token's \<open>exp\<close> claim is \<open>now\<close> plus 15 minutes, in whole
  seconds. The 30 minutes of \<open>ACCESS_TOKEN_EXPIRE_MINUTES\<close> are what the login handler
  passes as \<open>expires_delta\<close>: with that argument \<open>exp\<close> is \<open>now\<close> plus 30 minutes. The
  claims in \<open>data\<close> hold no \<open>datetime\<close>, so that the token can be serialised, and the
  expiry time is still a \<open>datetime\<close>, as it is at every clock reading before the last
  half hour of year 9999.
\<close>

theorem create_access_token_default_expiry:
  assumes "\<not> list_ex (\<lambda>(k, v). is_datetime v) data"
  shows "(in_datetime_range (now + timedelta_minutes 15) \<longrightarrow>
            (\<exists>claims. create_access_token data None now = Inr (JWT claims SECRET_KEY ALGORITHM)
               \<and> map_of claims ''exp'' = Some (JInt (now div 1000000 + 15 * 60))))
       \<and> create_access_token data (Some 0) now = create_access_token data None now
       \<and> (in_datetime_range (now + timedelta_minutes ACCESS_TOKEN_EXPIRE_MINUTES) \<longrightarrow>
            (\<exists>claims. create_access_token data (Some (timedelta_minutes ACCESS_TOKEN_EXPIRE_MINUTES)) now
                         = Inr (JWT claims SECRET_KEY ALGORITHM)
               \<and> map_of claims ''exp'' = Some (JInt (now div 1000000 + 30 * 60))))"
proof (intro conjI impI)
  have a: "(now + timedelta_minutes 15) div 1000000 = now div 1000000 + 15 * 60"
    using whole_seconds [of now 900] by (simp add: timedelta_minutes_def)
  have b: "(now + timedelta_minutes ACCESS_TOKEN_EXPIRE_MINUTES) div 1000000 = now div 1000000 + 30 * 60"
    using whole_seconds [of now 1800] by (simp add: timedelta_minutes_def ACCESS_TOKEN_EXPIRE_MINUTES_def)
  show "\<exists>claims. create_access_token data None now = Inr (JWT claims SECRET_KEY ALGORITHM)
            \<and> map_of claims ''exp'' = Some (JInt (now div 1000000 + 15 * 60))"
    if "in_datetime_range (now + timedelta_minutes 15)"
    using create_access_token_exp [OF assms, where expires_delta = None and now = now] a that by simp
  show "create_access_token data (Some 0) now = create_access_token data None now"
    by (simp add: create_access_token_def)
  have nz: "timedelta_minutes ACCESS_TOKEN_EXPIRE_MINUTES \<noteq> 0"
    by (simp add: timedelta_minutes_def ACCESS_TOKEN_EXPIRE_MINUTES_def)
  show "\<exists>claims. create_access_token data (Some (timedelta_minutes ACCESS_TOKEN_EXPIRE_MINUTES)) now
                      = Inr (JWT claims SECRET_KEY ALGORITHM)
            \<and> map_of claims ''exp'' = Some (JInt (now div 1000000 + 30 * 60))"
    if "in_datetime_range (now + timedelta_minutes ACCESS_TOKEN_EXPIRE_MINUTES)"
    using create_access_token_exp [OF assms, where expires_delta = "Some (timedelta_minutes ACCESS_TOKEN_EXPIRE_MINUTES)" and now = now]
      b nz that
    by simp
qed

theorem create_access_token_default_expiry_witness:
  "\<not> list_ex (\<lambda>(k, v). is_datetime v) [(''sub'', PStr ''admin'')]
   \<and> in_datetime_range (1700000000123456 + timedelta_minutes 15)
   \<and> in_datetime_range (1700000000123456 + timedelta_minutes ACCESS_TOKEN_EXPIRE_MINUTES)
   \<and> create_access_token [(''sub'', PStr ''admin'')] None 1700000000123456 =
       Inr (JWT [(''sub'', JStr ''admin''), (''exp'', JInt 1700000900)] SECRET_KEY ALGORITHM)
   \<and> create_access_token [(''sub'', PStr ''admin'')] (Some 0) 1700000000123456 =
       Inr (JWT [(''sub'', JStr ''admin''), (''exp'', JInt 1700000900)] SECRET_KEY ALGORITHM)
   \<and> create_access_token [(''sub'', PStr ''admin'')] (Some (timedelta_minutes 30)) 1700000000123456 =
       Inr (JWT [(''sub'', JStr ''admin''), (''exp'', JInt 1700001800)] SECRET_KEY ALGORITHM)"
proof -
  have h: "\<not> list_ex (\<lambda>(k, v). is_datetime v) [(''sub'', PStr ''admin'')]" by simp
  have r: "in_datetime_range (1700000000123456 + timedelta_minutes 15)"
    "in_datetime_range (1700000000123456 + timedelta_minutes ACCESS_TOKEN_EXPIRE_MINUTES)"
    by (simp_all add: in_datetime_range_def datetime_min_def datetime_max_def
        timedelta_minutes_def ACCESS_TOKEN_EXPIRE_MINUTES_def)
  from create_access_token_default_expiry [OF h, of 1700000000123456] h r show ?thesis
    by (simp add: create_access_token_def jwt_encode_def timedelta_minutes_def
        in_datetime_range_def datetime_min_def datetime_max_def)
qed




text \<open>
  C4, as the claim states it, within the second that \<open>exp\<close> names: at 200.999999 s the
  time \<open>exp = 200\<close> has elapsed, but the comparison is between whole seconds, and
  \<open>get_current_user\<close> accepts the token and returns the user.
\<close>

theorem get_current_user_same_second_counterexample:
  "(200 :: int) * 1000000 < 200999999
   \<and> get_current_user toy_int users1
        (JWT [(''sub'', JStr ''admin''), (''exp'', JInt 200)] SECRET_KEY ALGORITHM) 200999999 =
       Inr \<lparr>username = ''admin'', email = Some ''example@example.com'', full_name = None,
            disabled = Some False, hashed_password = ''hash-of-admin123''\<rparr>"
  by (simp add: get_current_user_def get_current_user_token_data_def jwt_decode_def
      validate_claims_def validate_iat_def validate_nbf_def validate_exp_def validate_aud_def validate_sub_def validate_jti_def validate_at_hash_def claim_to_int_def int_of_claim_def get_user_def users1_def
      UserInDB_of_row_def)

text \<open>
  C4, amended. \<open>get_current_user\<close> fails with the credential exception, HTTP 401 with
  the header \<open>WWW-Authenticate: Bearer\<close>, for every token whose \<open>exp\<close>, converted with
  \<open>int()\<close>, is smaller than the current time in whole seconds (from the second after the
  one \<open>exp\<close> names), provided the checks of \<open>iat\<close> and \<open>nbf\<close>, which come first,
  pass or raise a \<open>JWTError\<close>; for every token on which \<open>jwt.decode\<close> raises a
  \<open>JWTError\<close>; and for every token that decodes to a payload without a \<open>sub\<close> claim.
\<close>

theorem get_current_user_unauthorized:
  "(\<forall>claims key alg v e.
      token = JWT claims key alg \<and> map_of claims ''exp'' = Some v
        \<and> int_of_claim py_int v = Inr e \<and> e < now div 1000000
        \<and> pred_option is_JWTError (validate_iat py_int claims)
        \<and> pred_option is_JWTError (validate_nbf py_int claims now) \<longrightarrow>
      get_current_user py_int users token now = Inl credential_exception)
   \<and> (\<forall>k. jwt_decode py_int token SECRET_KEY [ALGORITHM] now = Inl (JWTError k) \<longrightarrow>
      get_current_user py_int users token now = Inl credential_exception)
   \<and> (\<forall>payload. jwt_decode py_int token SECRET_KEY [ALGORITHM] now = Inr payload
        \<and> map_of payload ''sub'' = None \<longrightarrow>
      get_current_user py_int users token now = Inl credential_exception)
   \<and> credential_exception =
       HTTPException 401 ''Could not validate credentials'' [(''WWW-Authenticate'', ''Bearer'')]"
proof (intro conjI allI impI)
  fix claims key alg v e
  assume h: "token = JWT claims key alg \<and> map_of claims ''exp'' = Some v
        \<and> int_of_claim py_int v = Inr e \<and> e < now div 1000000
        \<and> pred_option is_JWTError (validate_iat py_int claims)
        \<and> pred_option is_JWTError (validate_nbf py_int claims now)"
  then obtain k where "jwt_decode py_int token SECRET_KEY [ALGORITHM] now = Inl (JWTError k)"
    using jwt_decode_expired [of claims v py_int e now key alg] by auto
  then show "get_current_user py_int users token now = Inl credential_exception"
    by (simp add: get_current_user_def token_data_of_JWTError)
next
  fix k
  assume "jwt_decode py_int token SECRET_KEY [ALGORITHM] now = Inl (JWTError k)"
  then show "get_current_user py_int users token now = Inl credential_exception"
    by (simp add: get_current_user_def token_data_of_JWTError)
next
  fix payload
  assume "jwt_decode py_int token SECRET_KEY [ALGORITHM] now = Inr payload
      \<and> map_of payload ''sub'' = None"
  then show "get_current_user py_int users token now = Inl credential_exception"
    by (simp add: get_current_user_def get_current_user_token_data_def)
next
  show "credential_exception =
      HTTPException 401 ''Could not validate credentials'' [(''WWW-Authenticate'', ''Bearer'')]"
    by (simp add: credential_exception_def)
qed

theorem get_current_user_unauthorized_witness:
  "map_of [(''sub'', JStr ''admin''), (''exp'', JInt 100)] ''exp'' = Some (JInt 100)
   \<and> int_of_claim toy_int (JInt 100) = Inr 100
   \<and> (100::int) < 200000000 div 1000000
   \<and> pred_option is_JWTError
        (validate_iat toy_int [(''sub'', JStr ''admin''), (''exp'', JInt 100)])
   \<and> pred_option is_JWTError
        (validate_nbf toy_int [(''sub'', JStr ''admin''), (''exp'', JInt 100)] 200000000)
   \<and> get_current_user toy_int users1 expired_token 200000000 =
       Inl (HTTPException 401 ''Could not validate credentials'' [(''WWW-Authenticate'', ''Bearer'')])
   \<and> jwt_decode toy_int (Malformed ''not-a-token'') SECRET_KEY [ALGORITHM] 200000000
       = Inl (JWTError JWTError_base)
   \<and> get_current_user toy_int users1 (Malformed ''not-a-token'') 200000000 =
       Inl (HTTPException 401 ''Could not validate credentials'' [(''WWW-Authenticate'', ''Bearer'')])
   \<and> jwt_decode toy_int no_sub_token SECRET_KEY [ALGORITHM] 200000000 = Inr [(''exp'', JInt 300)]
   \<and> map_of [(''exp'', JInt 300)] ''sub'' = None
   \<and> get_current_user toy_int users1 no_sub_token 200000000 =
       Inl (HTTPException 401 ''Could not validate credentials'' [(''WWW-Authenticate'', ''Bearer'')])"
proof -
  note expired = get_current_user_unauthorized [of expired_token toy_int 200000000 users1]
  note malformed = get_current_user_unauthorized [of "Malformed ''not-a-token''" toy_int 200000000 users1]
  note no_sub = get_current_user_unauthorized [of no_sub_token toy_int 200000000 users1]
  have e1: "map_of [(''sub'', JStr ''admin''), (''exp'', JInt 100)] ''exp'' = Some (JInt 100)"
    by simp
  have e2: "int_of_claim toy_int (JInt 100) = Inr 100" by (simp add: int_of_claim_def)
  have e3: "(100::int) < 200000000 div 1000000" by simp
  have e4: "pred_option is_JWTError
        (validate_iat toy_int [(''sub'', JStr ''admin''), (''exp'', JInt 100)])"
    "pred_option is_JWTError
        (validate_nbf toy_int [(''sub'', JStr ''admin''), (''exp'', JInt 100)] 200000000)"
    by (simp_all add: validate_iat_def validate_nbf_def)
  have m1: "jwt_decode toy_int (Malformed ''not-a-token'') SECRET_KEY [ALGORITHM] 200000000
      = Inl (JWTError JWTError_base)"
    by (simp add: jwt_decode_def)
  have n1: "jwt_decode toy_int no_sub_token SECRET_KEY [ALGORITHM] 200000000 = Inr [(''exp'', JInt 300)]"
    by (simp add: jwt_decode_def validate_claims_def validate_iat_def validate_nbf_def validate_exp_def validate_aud_def validate_sub_def validate_jti_def validate_at_hash_def claim_to_int_def int_of_claim_def no_sub_token_def)
  have n2: "map_of [(''exp'', JInt 300)] ''sub'' = (None :: jval option)" by simp
  from expired e1 e2 e3 e4 have a: "get_current_user toy_int users1 expired_token 200000000 =
      Inl (HTTPException 401 ''Could not validate credentials'' [(''WWW-Authenticate'', ''Bearer'')])"
    unfolding expired_token_def by metis
  from malformed m1 have b: "get_current_user toy_int users1 (Malformed ''not-a-token'') 200000000 =
      Inl (HTTPException 401 ''Could not validate credentials'' [(''WWW-Authenticate'', ''Bearer'')])"
    by metis
  from no_sub n1 n2 have c: "get_current_user toy_int users1 no_sub_token 200000000 =
      Inl (HTTPException 401 ''Could not validate credentials'' [(''WWW-Authenticate'', ''Bearer'')])"
    by metis
  from e1 e2 e3 e4 a m1 b n1 n2 c show ?thesis by simp
qed

section \<open>Login\<close>

text \<open>
  C1 at a username that no row has. The claim asks for the same 401 as for a wrong
  password. \<open>get_user\<close> tests \<open>username\<close> where it means the fetched row, so for the
  unknown, non-empty username \<open>ghost\<close> it raises \<open>TypeError\<close>, which no handler catches;
  the check \<open>if not user\<close> of \<open>authenticate_user\<close> is reached only for the empty
  username. For a known username with a wrong password the login fails with 401.
\<close>

theorem login_unknown_username_TypeError:
  "login_for_access_token toy_verify users1 0 ''ghost'' ''admin123'' = Inl TypeError
   \<and> login_for_access_token toy_verify users1 0 ''admin'' ''wrong'' =
       Inl (HTTPException 401 ''Incorrect username or password'' [(''WWW-Authenticate'', ''Bearer'')])"
  by (simp add: login_for_access_token_def authenticate_user_def get_user_def users1_def
      toy_verify_def UserInDB_of_row_def)

end
